theory Spec2Isabelle
  imports Main
begin

section \<open>Data model of \<^verbatim>\<open>timetable_py.py\<close>\<close>

text \<open>
  The four dataclasses of the module. Several classes use the same field names
  (\<open>id\<close>, \<open>duration\<close>, \<open>room_type\<close>); the selectors are therefore always written
  qualified: \<open>Course.id\<close>, \<open>TimeSlot.duration\<close>, \<open>Room.id\<close>. Python's \<open>int\<close> is \<open>int\<close>,
  \<open>str\<close> is \<open>string\<close>.
\<close>

record Course =
  id :: string
  name :: string
  teacher_id :: string
  teacher_name :: string
  duration :: int
  room_type :: string

record TimeSlot =
  id :: string
  day :: string
  start_time :: int
  end_time :: int
  duration :: int

record Room =
  id :: string
  room_type :: string
  capacity :: int

record ScheduleEntry =
  course :: Course
  time_slot :: TimeSlot
  room :: Room

text \<open>
  The attributes of a \<open>TimetableScheduler\<close> object. The three catalog dictionaries are
  maps from ids to records; the schedule is a list. The handle \<open>self.prolog\<close> is the
  external engine and is not part of the object state modelled here.
\<close>

record TimetableScheduler =
  prolog_file :: string
  prolog_available :: bool
  courses :: "string \<rightharpoonup> Course"
  time_slots :: "string \<rightharpoonup> TimeSlot"
  rooms :: "string \<rightharpoonup> Room"
  schedule :: "ScheduleEntry list"

text \<open>The exceptions that can leave a method uncaught: a dictionary read of a missing
  key, and the conversion of an integer of too many digits to a string.\<close>

datatype py_error = KeyError string | ValueError

subsection \<open>The knowledge base as seen through \<open>prolog.query\<close>\<close>

text \<open>
  \<open>prolog.query(q)\<close> is a generator: it yields some solutions and then either is
  exhausted or raises. The knowledge-base file is an argument of the constructor, so
  what the queries answer is an input of the program. One \<open>prolog_kb\<close> value holds the
  answers the engine gives during one method call. An answer on which a loop body
  itself raises (an element of \<open>Schedule\<close> that is not a triple, say) behaves like the
  generator raising at that point: the solutions up to there, then \<open>raises\<close>.
\<close>

datatype 'a query = Query (solutions: "'a list") (raises: bool)

record prolog_kb =
  consult_raises :: bool
  get_course_details :: "(string \<times> string \<times> string \<times> int \<times> string) query"
  get_time_details :: "(string \<times> string \<times> int \<times> int) query"
  get_room_details :: "(string \<times> string \<times> int) query"
  clear_schedule :: "unit query"
  generate_optimal_timetable :: "unit query"
  get_schedule :: "(string \<times> string \<times> string) list query"

section \<open>Python primitives\<close>

text \<open>
  \<open>str(n)\<close> for an integer, also what an f-string does with it: decimal digits, with a
  leading minus sign. CPython refuses the conversion with \<open>ValueError\<close> when the number
  has more digits (the sign not counted) than \<open>sys.get_int_max_str_digits()\<close>, which is
  4300 unless the interpreter is configured otherwise.
\<close>

definition digit_char :: "nat \<Rightarrow> char" where
  "digit_char d = ''0123456789'' ! d"

fun str_nat :: "nat \<Rightarrow> string" where
  "str_nat n = (if n < 10 then [digit_char n]
                else str_nat (n div 10) @ [digit_char (n mod 10)])"

declare str_nat.simps [simp del]

definition decimal :: "int \<Rightarrow> string" where
  "decimal i = (if i < 0 then CHR ''-'' # str_nat (nat (- i)) else str_nat (nat i))"

definition int_max_str_digits :: nat where
  "int_max_str_digits = 4300"

definition str_int :: "int \<Rightarrow> py_error + string" where
  "str_int i =
     (if int_max_str_digits < length (str_nat (nat \<bar>i\<bar>)) then Inl ValueError
      else Inr (decimal i))"

text \<open>\<open>d[k]\<close> raises \<open>KeyError\<close> on a missing key; \<open>d.setdefault(k, v)\<close> stores \<open>v\<close>
  under a missing key and returns the value now stored under \<open>k\<close>.\<close>

definition getitem :: "(string \<rightharpoonup> 'v) \<Rightarrow> string \<Rightarrow> py_error + 'v" where
  "getitem d k = (case d k of None \<Rightarrow> Inl (KeyError k) | Some v \<Rightarrow> Inr v)"

definition setdefault :: "(string \<rightharpoonup> 'v) \<Rightarrow> string \<Rightarrow> 'v \<Rightarrow> 'v \<times> (string \<rightharpoonup> 'v)" where
  "setdefault d k v = (case d k of None \<Rightarrow> (v, d(k \<mapsto> v)) | Some w \<Rightarrow> (w, d))"

section \<open>Loading the catalog\<close>

definition load_mock_data :: "TimetableScheduler \<Rightarrow> TimetableScheduler" where
  "load_mock_data st = st
     \<lparr>courses :=
        [''cs101'' \<mapsto> \<lparr>Course.id = ''cs101'', name = ''Computer Science 101'',
            teacher_id = ''t001'', teacher_name = ''Dr. Smith'', duration = 2,
            room_type = ''computer_lab''\<rparr>,
         ''cs102'' \<mapsto> \<lparr>Course.id = ''cs102'', name = ''Data Structures'',
            teacher_id = ''t002'', teacher_name = ''Prof. Johnson'', duration = 2,
            room_type = ''computer_lab''\<rparr>,
         ''math101'' \<mapsto> \<lparr>Course.id = ''math101'', name = ''Calculus I'',
            teacher_id = ''t003'', teacher_name = ''Dr. Brown'', duration = 1,
            room_type = ''classroom''\<rparr>,
         ''math102'' \<mapsto> \<lparr>Course.id = ''math102'', name = ''Linear Algebra'',
            teacher_id = ''t004'', teacher_name = ''Prof. Davis'', duration = 2,
            room_type = ''classroom''\<rparr>,
         ''phy101'' \<mapsto> \<lparr>Course.id = ''phy101'', name = ''Physics I'',
            teacher_id = ''t005'', teacher_name = ''Dr. Wilson'', duration = 2,
            room_type = ''physics_lab''\<rparr>],
      time_slots :=
        [''slot1'' \<mapsto> \<lparr>TimeSlot.id = ''slot1'', day = ''monday'', start_time = 800,
            end_time = 900, duration = 1\<rparr>,
         ''slot2'' \<mapsto> \<lparr>TimeSlot.id = ''slot2'', day = ''monday'', start_time = 900,
            end_time = 1000, duration = 1\<rparr>,
         ''slot3'' \<mapsto> \<lparr>TimeSlot.id = ''slot3'', day = ''monday'', start_time = 1000,
            end_time = 1200, duration = 2\<rparr>,
         ''slot4'' \<mapsto> \<lparr>TimeSlot.id = ''slot4'', day = ''tuesday'', start_time = 800,
            end_time = 900, duration = 1\<rparr>,
         ''slot5'' \<mapsto> \<lparr>TimeSlot.id = ''slot5'', day = ''tuesday'', start_time = 1000,
            end_time = 1200, duration = 2\<rparr>],
      rooms :=
        [''r001'' \<mapsto> \<lparr>Room.id = ''r001'', room_type = ''computer_lab'', capacity = 30\<rparr>,
         ''r002'' \<mapsto> \<lparr>Room.id = ''r002'', room_type = ''classroom'', capacity = 40\<rparr>,
         ''r003'' \<mapsto> \<lparr>Room.id = ''r003'', room_type = ''physics_lab'', capacity = 20\<rparr>]\<rparr>"

text \<open>The bodies of the three \<open>for sol in self.prolog.query(...)\<close> loops of
  \<open>_load_from_prolog\<close>; each stores one record under its id.\<close>

fun load_courses ::
  "(string \<times> string \<times> string \<times> int \<times> string) list \<Rightarrow> (string \<rightharpoonup> Course) \<Rightarrow> (string \<rightharpoonup> Course)"
where
  "load_courses [] d = d"
| "load_courses ((course_id, course_name, teacher, dur, rtype) # sols) d =
     load_courses sols
       (d(course_id \<mapsto> \<lparr>Course.id = course_id, name = course_name, teacher_id = [],
            teacher_name = teacher, duration = dur, room_type = rtype\<rparr>))"

fun load_time_slots ::
  "(string \<times> string \<times> int \<times> int) list \<Rightarrow> (string \<rightharpoonup> TimeSlot) \<Rightarrow> (string \<rightharpoonup> TimeSlot)"
where
  "load_time_slots [] d = d"
| "load_time_slots ((slot_id, dy, start, endt) # sols) d =
     load_time_slots sols
       (d(slot_id \<mapsto> \<lparr>TimeSlot.id = slot_id, day = dy, start_time = start,
            end_time = endt, duration = (endt - start) div 100\<rparr>))"

fun load_rooms ::
  "(string \<times> string \<times> int) list \<Rightarrow> (string \<rightharpoonup> Room) \<Rightarrow> (string \<rightharpoonup> Room)"
where
  "load_rooms [] d = d"
| "load_rooms ((room_id, rtype, cap) # sols) d =
     load_rooms sols (d(room_id \<mapsto> \<lparr>Room.id = room_id, room_type = rtype, capacity = cap\<rparr>))"

text \<open>An exception in any of the three loops is caught and the mock data replaces
  whatever was loaded so far; \<open>prolog_available\<close> is left as it is.\<close>

definition load_from_prolog :: "prolog_kb \<Rightarrow> TimetableScheduler \<Rightarrow> TimetableScheduler" where
  "load_from_prolog kb st =
     (let st1 = st\<lparr>courses := load_courses (solutions (get_course_details kb)) (courses st)\<rparr>
      in if raises (get_course_details kb) then load_mock_data st1
      else let st2 = st1\<lparr>time_slots :=
                      load_time_slots (solutions (get_time_details kb)) (time_slots st1)\<rparr>
      in if raises (get_time_details kb) then load_mock_data st2
      else let st3 = st2\<lparr>rooms := load_rooms (solutions (get_room_details kb)) (rooms st2)\<rparr>
      in if raises (get_room_details kb) then load_mock_data st3
      else st3)"

definition load_data :: "prolog_kb \<Rightarrow> TimetableScheduler \<Rightarrow> TimetableScheduler" where
  "load_data kb st =
     (if prolog_available st then load_from_prolog kb st else load_mock_data st)"

text \<open>The constructor. \<open>pyswip_available\<close> is the module constant
  \<open>PYSWIP_AVAILABLE\<close>.\<close>

definition TimetableScheduler_init ::
  "bool \<Rightarrow> string \<Rightarrow> prolog_kb \<Rightarrow> TimetableScheduler" where
  "TimetableScheduler_init pyswip_available file kb =
     (let st = \<lparr>prolog_file = file, prolog_available = False, courses = Map.empty,
                time_slots = Map.empty, rooms = Map.empty, schedule = []\<rparr>;
          st1 = (if pyswip_available
                 then (if consult_raises kb then st else st\<lparr>prolog_available := True\<rparr>)
                 else st)
      in load_data kb st1)"

section \<open>Generating the schedule\<close>

text \<open>\<open>ScheduleEntry(self.courses[c], self.time_slots[s], self.rooms[r])\<close>: three
  dictionary reads, left to right.\<close>

definition lookup_entry ::
  "TimetableScheduler \<Rightarrow> string \<Rightarrow> string \<Rightarrow> string \<Rightarrow> py_error + ScheduleEntry" where
  "lookup_entry st c s r =
     (case getitem (courses st) c of Inl e \<Rightarrow> Inl e | Inr co \<Rightarrow>
       (case getitem (time_slots st) s of Inl e \<Rightarrow> Inl e | Inr ts \<Rightarrow>
          (case getitem (rooms st) r of Inl e \<Rightarrow> Inl e | Inr ro \<Rightarrow>
             Inr \<lparr>course = co, time_slot = ts, room = ro\<rparr>)))"

definition generate_mock_schedule ::
  "TimetableScheduler \<Rightarrow> (py_error + bool) \<times> TimetableScheduler" where
  "generate_mock_schedule st =
     (case lookup_entry st ''cs101'' ''slot3'' ''r001'' of Inl e \<Rightarrow> (Inl e, st) | Inr e1 \<Rightarrow>
       (case lookup_entry st ''math101'' ''slot1'' ''r002'' of Inl e \<Rightarrow> (Inl e, st) | Inr e2 \<Rightarrow>
          (case lookup_entry st ''phy101'' ''slot5'' ''r003'' of Inl e \<Rightarrow> (Inl e, st) | Inr e3 \<Rightarrow>
             (Inr True, st\<lparr>schedule := [e1, e2, e3]\<rparr>))))"

text \<open>The inner loop over one solution's triples: a triple is appended when all
  three ids are keys of the catalog, and skipped otherwise.\<close>

fun append_triples ::
  "TimetableScheduler \<Rightarrow> (string \<times> string \<times> string) list \<Rightarrow> ScheduleEntry list
     \<Rightarrow> ScheduleEntry list"
where
  "append_triples st [] sched = sched"
| "append_triples st ((course_id, slot_id, room_id) # ts) sched =
     (case lookup_entry st course_id slot_id room_id of
        Inr e \<Rightarrow> append_triples st ts (sched @ [e])
      | Inl _ \<Rightarrow> append_triples st ts sched)"

text \<open>The outer loop over the solutions of \<open>get_schedule(Schedule)\<close>.\<close>

fun append_solutions ::
  "TimetableScheduler \<Rightarrow> (string \<times> string \<times> string) list list \<Rightarrow> ScheduleEntry list
     \<Rightarrow> ScheduleEntry list"
where
  "append_solutions st [] sched = sched"
| "append_solutions st (sol # sols) sched =
     append_solutions st sols (append_triples st sol sched)"

text \<open>Every exception is caught and turned into \<open>False\<close>; one raised while the
  schedule is being refilled leaves the entries appended so far.\<close>

definition generate_prolog_schedule ::
  "prolog_kb \<Rightarrow> TimetableScheduler \<Rightarrow> (py_error + bool) \<times> TimetableScheduler" where
  "generate_prolog_schedule kb st =
     (if raises (clear_schedule kb) then (Inr False, st)
      else if raises (generate_optimal_timetable kb) then (Inr False, st)
      else if solutions (generate_optimal_timetable kb) = [] then (Inr False, st)
      else let st1 = st\<lparr>schedule := []\<rparr>;
               st2 = st1\<lparr>schedule :=
                       append_solutions st1 (solutions (get_schedule kb)) (schedule st1)\<rparr>
           in if raises (get_schedule kb) then (Inr False, st2) else (Inr True, st2))"

definition generate_schedule ::
  "prolog_kb \<Rightarrow> TimetableScheduler \<Rightarrow> (py_error + bool) \<times> TimetableScheduler" where
  "generate_schedule kb st =
     (if prolog_available st then generate_prolog_schedule kb st
      else generate_mock_schedule st)"

section \<open>Checking for conflicts\<close>

text \<open>The local variables of \<open>check_conflicts\<close>.\<close>

record conflict_state =
  conflicts :: "string list"
  teacher_slots :: "string \<rightharpoonup> string set"
  room_slots :: "string \<rightharpoonup> string set"

text \<open>The f-string \<open>f"{entry.time_slot.day}_{entry.time_slot.start_time}"\<close>.\<close>

definition slot_key :: "ScheduleEntry \<Rightarrow> py_error + string" where
  "slot_key entry =
     (case str_int (start_time (time_slot entry)) of
        Inl e \<Rightarrow> Inl e
      | Inr digits \<Rightarrow> Inr (day (time_slot entry) @ ''_'' @ digits))"

definition teacher_msg :: "string \<Rightarrow> string \<Rightarrow> string" where
  "teacher_msg teacher key = ''Teacher '' @ teacher @ '' has overlapping classes at '' @ key"

definition room_msg :: "string \<Rightarrow> string \<Rightarrow> string" where
  "room_msg rm key = ''Room '' @ rm @ '' has overlapping bookings at '' @ key"

text \<open>
  The statement \<open>if key in d.setdefault(k, set()): ... else: d[k].add(key)\<close>, which the
  loop body runs once on \<open>teacher_slots\<close> and once on \<open>room_slots\<close>. The result says
  whether the key was already there, and gives the dictionary afterwards.
\<close>

definition seen_or_add ::
  "(string \<rightharpoonup> string set) \<Rightarrow> string \<Rightarrow> string \<Rightarrow> py_error + (bool \<times> (string \<rightharpoonup> string set))"
where
  "seen_or_add d k key =
     (case setdefault d k {} of (s, d1) \<Rightarrow>
        if key \<in> s then Inr (True, d1)
        else (case getitem d1 k of Inl e \<Rightarrow> Inl e
              | Inr s1 \<Rightarrow> Inr (False, d1(k \<mapsto> insert key s1))))"

definition check_entry :: "ScheduleEntry \<Rightarrow> conflict_state \<Rightarrow> py_error + conflict_state" where
  "check_entry entry cs =
     (let teacher = teacher_name (course entry);
          rm = Room.id (room entry)
      in (case slot_key entry of Inl e \<Rightarrow> Inl e
          | Inr key \<Rightarrow>
            (case seen_or_add (teacher_slots cs) teacher key of Inl e \<Rightarrow> Inl e
             | Inr (tseen, td) \<Rightarrow>
               (let c1 = (if tseen then conflicts cs @ [teacher_msg teacher key]
                          else conflicts cs)
                in (case seen_or_add (room_slots cs) rm key of Inl e \<Rightarrow> Inl e
                    | Inr (rseen, rd) \<Rightarrow>
                      Inr \<lparr>conflicts = (if rseen then c1 @ [room_msg rm key] else c1),
                           teacher_slots = td, room_slots = rd\<rparr>)))))"

fun check_loop :: "ScheduleEntry list \<Rightarrow> conflict_state \<Rightarrow> py_error + conflict_state" where
  "check_loop [] cs = Inr cs"
| "check_loop (entry # es) cs =
     (case check_entry entry cs of Inl e \<Rightarrow> Inl e | Inr cs' \<Rightarrow> check_loop es cs')"

definition check_conflicts ::
  "TimetableScheduler \<Rightarrow> (py_error + string list) \<times> TimetableScheduler" where
  "check_conflicts st =
     (case check_loop (schedule st)
             \<lparr>conflicts = [], teacher_slots = Map.empty, room_slots = Map.empty\<rparr> of
        Inl e \<Rightarrow> (Inl e, st)
      | Inr cs \<Rightarrow> (Inr (conflicts cs), st))"

section \<open>Notions used to state the properties\<close>

text \<open>The contents of a dictionary of sets, as a set of (key, element) pairs. This
  is the abstraction under which the loop of \<open>check_conflicts\<close> is analysed.\<close>

definition dict_pairs :: "(string \<rightharpoonup> string set) \<Rightarrow> (string \<times> string) set" where
  "dict_pairs d = {(k, x). \<exists>s. d k = Some s \<and> x \<in> s}"

text \<open>The start time of an entry can be converted to a string, and the slot key the
  f-string then gives.\<close>

definition start_within_limit :: "ScheduleEntry \<Rightarrow> bool" where
  "start_within_limit e \<longleftrightarrow>
     length (str_nat (nat \<bar>start_time (time_slot e)\<bar>)) \<le> int_max_str_digits"

definition key_text :: "ScheduleEntry \<Rightarrow> string" where
  "key_text e = day (time_slot e) @ ''_'' @ decimal (start_time (time_slot e))"

text \<open>What the loop records for an entry: the teacher with the slot key, and the room
  with the slot key.\<close>

definition teacher_key :: "ScheduleEntry \<Rightarrow> string \<times> string" where
  "teacher_key e = (teacher_name (course e), key_text e)"

definition room_key :: "ScheduleEntry \<Rightarrow> string \<times> string" where
  "room_key e = (Room.id (room e), key_text e)"

text \<open>The messages the loop appends, given the pairs recorded so far.\<close>

fun conflict_msgs :: "ScheduleEntry list \<Rightarrow> (string \<times> string) set \<Rightarrow> (string \<times> string) set \<Rightarrow> string list" where
  "conflict_msgs [] T R = []"
| "conflict_msgs (e # es) T R =
     (if teacher_key e \<in> T then [teacher_msg (teacher_name (course e)) (key_text e)] else []) @
     (if room_key e \<in> R then [room_msg (Room.id (room e)) (key_text e)] else []) @
     conflict_msgs es (insert (teacher_key e) T) (insert (room_key e) R)"

text \<open>A booking of a teacher or of a room: who, on which day, starting when.\<close>

definition teacher_booking :: "ScheduleEntry \<Rightarrow> string \<times> string \<times> int" where
  "teacher_booking e = (teacher_name (course e), day (time_slot e), start_time (time_slot e))"

definition room_booking :: "ScheduleEntry \<Rightarrow> string \<times> string \<times> int" where
  "room_booking e = (Room.id (room e), day (time_slot e), start_time (time_slot e))"


text \<open>The ids of an entry, and the number of entries of a schedule that hold a given
  course.\<close>

definition entry_ids :: "ScheduleEntry \<Rightarrow> string \<times> string \<times> string" where
  "entry_ids e = (Course.id (course e), TimeSlot.id (time_slot e), Room.id (room e))"

definition count_course :: "Course \<Rightarrow> ScheduleEntry list \<Rightarrow> nat" where
  "count_course c sched = length (filter (\<lambda>e. course e = c) sched)"

text \<open>The catalog is the one \<open>_load_mock_data\<close> installs.\<close>

definition mock_catalog :: "TimetableScheduler \<Rightarrow> bool" where
  "mock_catalog st \<longleftrightarrow>
     courses st = courses (load_mock_data st) \<and>
     time_slots st = time_slots (load_mock_data st) \<and>
     rooms st = rooms (load_mock_data st)"

subsection \<open>Example inputs\<close>

text \<open>The environment without Prolog: consulting the file fails and so would every
  query.\<close>

definition no_prolog :: prolog_kb where
  "no_prolog = \<lparr>consult_raises = True,
     get_course_details = Query [] True, get_time_details = Query [] True,
     get_room_details = Query [] True, clear_schedule = Query [] True,
     generate_optimal_timetable = Query [] True, get_schedule = Query [] True\<rparr>"


text \<open>A knowledge base with a three-hour course, slots of one and two hours, and an
  answer to \<open>get_schedule\<close> that places the course in the two-hour slot.\<close>

definition oversize_kb :: prolog_kb where
  "oversize_kb = \<lparr>consult_raises = False,
     get_course_details = Query
       [(''long101'', ''Seminar'', ''Dr. Smith'', 3, ''classroom'')] False,
     get_time_details = Query
       [(''slot1'', ''monday'', 800, 900), (''slot2'', ''monday'', 900, 1100)] False,
     get_room_details = Query [(''r002'', ''classroom'', 40)] False,
     clear_schedule = Query [()] False,
     generate_optimal_timetable = Query [()] False,
     get_schedule = Query [[(''long101'', ''slot2'', ''r002'')]] False\<rparr>"

text \<open>A hand-built entry whose start time is an integer of 4301 digits.\<close>

definition huge_start_entry :: ScheduleEntry where
  "huge_start_entry =
     \<lparr>course = \<lparr>Course.id = ''cs101'', name = ''Computer Science 101'',
         teacher_id = ''t001'', teacher_name = ''Dr. Smith'', duration = 2,
         room_type = ''computer_lab''\<rparr>,
       time_slot = \<lparr>TimeSlot.id = ''slot1'', day = ''monday'',
         start_time = 10 ^ int_max_str_digits, end_time = 10 ^ int_max_str_digits + 200,
         duration = 2\<rparr>,
       room = \<lparr>Room.id = ''r001'', room_type = ''computer_lab'', capacity = 30\<rparr>\<rparr>"

text \<open>A hand-built entry: a two-hour course that needs a computer lab, in a one-hour
  slot and in a classroom.\<close>

definition mismatched_entry :: ScheduleEntry where
  "mismatched_entry =
     \<lparr>course = \<lparr>Course.id = ''cs101'', name = ''Computer Science 101'',
         teacher_id = ''t001'', teacher_name = ''Dr. Smith'', duration = 2,
         room_type = ''computer_lab''\<rparr>,
       time_slot = \<lparr>TimeSlot.id = ''slot1'', day = ''monday'', start_time = 800,
         end_time = 900, duration = 1\<rparr>,
       room = \<lparr>Room.id = ''r002'', room_type = ''classroom'', capacity = 40\<rparr>\<rparr>"

section \<open>The loop of \<open>check_conflicts\<close>\<close>

lemma dict_pairs_empty: "dict_pairs Map.empty = {}"
  by (simp add: dict_pairs_def)

lemma seen_or_add_eq:
  "\<exists>d'. seen_or_add d k key = Inr ((k, key) \<in> dict_pairs d, d')
        \<and> dict_pairs d' = insert (k, key) (dict_pairs d)"
  by (cases "d k") (auto simp: seen_or_add_def setdefault_def getitem_def dict_pairs_def split: if_splits)




lemma slot_key_eq:
  "slot_key e = (if start_within_limit e then Inr (key_text e) else Inl ValueError)"
  by (simp add: slot_key_def str_int_def start_within_limit_def key_text_def)

lemma check_entry_raises:
  "\<not> start_within_limit e \<Longrightarrow> check_entry e cs = Inl ValueError"
  by (simp add: check_entry_def slot_key_eq)

lemma check_entry_eq:
  assumes "start_within_limit e"
  shows "\<exists>cs'. check_entry e cs = Inr cs'
     \<and> conflicts cs' = conflicts cs @
         (if teacher_key e \<in> dict_pairs (teacher_slots cs) then [teacher_msg (teacher_name (course e)) (key_text e)] else []) @
         (if room_key e \<in> dict_pairs (room_slots cs) then [room_msg (Room.id (room e)) (key_text e)] else [])
     \<and> dict_pairs (teacher_slots cs') = insert (teacher_key e) (dict_pairs (teacher_slots cs))
     \<and> dict_pairs (room_slots cs') = insert (room_key e) (dict_pairs (room_slots cs))"
proof -
  obtain td where t: "seen_or_add (teacher_slots cs) (teacher_name (course e)) (key_text e)
       = Inr (teacher_key e \<in> dict_pairs (teacher_slots cs), td)"
     and td: "dict_pairs td = insert (teacher_key e) (dict_pairs (teacher_slots cs))"
    using seen_or_add_eq [of "teacher_slots cs" "teacher_name (course e)" "key_text e"]
    by (auto simp: teacher_key_def)
  obtain rd where r: "seen_or_add (room_slots cs) (Room.id (room e)) (key_text e)
       = Inr (room_key e \<in> dict_pairs (room_slots cs), rd)"
     and rd: "dict_pairs rd = insert (room_key e) (dict_pairs (room_slots cs))"
    using seen_or_add_eq [of "room_slots cs" "Room.id (room e)" "key_text e"]
    by (auto simp: room_key_def)
  show ?thesis
    by (simp add: check_entry_def slot_key_eq assms Let_def t r td rd)
qed

lemma check_loop_raises:
  "\<not> list_all start_within_limit es \<Longrightarrow> check_loop es cs = Inl ValueError"
proof (induction es arbitrary: cs)
  case Nil
  then show ?case by simp
next
  case (Cons e es)
  show ?case
  proof (cases "start_within_limit e")
    case False
    then show ?thesis by (simp add: check_entry_raises)
  next
    case True
    then obtain cs1 where 1: "check_entry e cs = Inr cs1"
      using check_entry_eq [of e cs] by auto
    from True Cons.prems have "\<not> list_all start_within_limit es" by simp
    from Cons.IH [OF this, of cs1] show ?thesis by (simp add: 1)
  qed
qed

lemma check_loop_eq:
  "list_all start_within_limit es \<Longrightarrow>
   \<exists>cs'. check_loop es cs = Inr cs'
     \<and> conflicts cs' = conflicts cs @ conflict_msgs es (dict_pairs (teacher_slots cs)) (dict_pairs (room_slots cs))"
proof (induction es arbitrary: cs)
  case Nil
  show ?case by simp
next
  case (Cons e es)
  from Cons.prems have e: "start_within_limit e" and es: "list_all start_within_limit es"
    by simp_all
  obtain cs1 where 1: "check_entry e cs = Inr cs1"
    and c1: "conflicts cs1 = conflicts cs @
         (if teacher_key e \<in> dict_pairs (teacher_slots cs) then [teacher_msg (teacher_name (course e)) (key_text e)] else []) @
         (if room_key e \<in> dict_pairs (room_slots cs) then [room_msg (Room.id (room e)) (key_text e)] else [])"
    and t1: "dict_pairs (teacher_slots cs1) = insert (teacher_key e) (dict_pairs (teacher_slots cs))"
    and r1: "dict_pairs (room_slots cs1) = insert (room_key e) (dict_pairs (room_slots cs))"
    using check_entry_eq [OF e, of cs] by auto
  from Cons.IH [OF es, of cs1] obtain cs' where 2: "check_loop es cs1 = Inr cs'"
    and c2: "conflicts cs' = conflicts cs1 @ conflict_msgs es (dict_pairs (teacher_slots cs1)) (dict_pairs (room_slots cs1))"
    by auto
  show ?case
    by (simp add: 1 2 c2 c1 t1 r1)
qed

lemma check_conflicts_eq:
  "check_conflicts st =
     (if list_all start_within_limit (schedule st)
      then Inr (conflict_msgs (schedule st) {} {}) else Inl ValueError, st)"
proof (cases "list_all start_within_limit (schedule st)")
  case True
  from check_loop_eq [OF True,
      of "\<lparr>conflicts = [], teacher_slots = Map.empty, room_slots = Map.empty\<rparr>"] True
  show ?thesis by (auto simp: check_conflicts_def dict_pairs_empty)
next
  case False
  from check_loop_raises [OF False,
      of "\<lparr>conflicts = [], teacher_slots = Map.empty, room_slots = Map.empty\<rparr>"] False
  show ?thesis by (simp add: check_conflicts_def)
qed

lemma conflict_msgs_Nil_iff:
  "conflict_msgs es T R = [] \<longleftrightarrow>
     distinct (map teacher_key es) \<and> set (map teacher_key es) \<inter> T = {} \<and>
     distinct (map room_key es) \<and> set (map room_key es) \<inter> R = {}"
  by (induction es arbitrary: T R) auto

section \<open>Slot keys determine day and start time\<close>

lemma digit_char_cases:
  "d < 10 \<Longrightarrow> d = 0 \<or> d = 1 \<or> d = 2 \<or> d = 3 \<or> d = 4 \<or> d = 5 \<or> d = 6 \<or> d = 7 \<or> d = 8 \<or> d = (9::nat)"
  by arith

lemma digit_char_code:
  assumes "d < 10"
  shows "of_char (digit_char d) = 48 + d"
  using digit_char_cases [OF assms] by (auto simp: digit_char_def)

lemma digit_char_inj:
  assumes "a < 10" "b < 10" "digit_char a = digit_char b"
  shows "a = b"
proof -
  have "48 + a = (of_char (digit_char a) :: nat)" using assms(1) by (simp add: digit_char_code)
  also have "\<dots> = 48 + b" using assms(2,3) by (simp add: digit_char_code)
  finally show ?thesis by simp
qed

lemma digit_char_plain:
  assumes "d < 10"
  shows "digit_char d \<noteq> CHR ''_'' \<and> digit_char d \<noteq> CHR ''-''"
  using digit_char_cases [OF assms] by (auto simp: digit_char_def)

lemma str_nat_not_Nil: "str_nat n \<noteq> []"
  by (subst str_nat.simps) simp

lemma str_nat_unfold:
  "set (str_nat n) = (if n < 10 then {digit_char n}
                      else insert (digit_char (n mod 10)) (set (str_nat (n div 10))))"
  by (subst str_nat.simps) simp

lemma str_nat_small_mem: "n < 10 \<Longrightarrow> c \<in> set (str_nat n) \<Longrightarrow> c = digit_char n"
  by (simp add: str_nat_unfold [of n])

lemma str_nat_large_mem: "\<not> n < 10 \<Longrightarrow> c \<in> set (str_nat n) \<Longrightarrow> c = digit_char (n mod 10) \<or> c \<in> set (str_nat (n div 10))"
  by (simp add: str_nat_unfold [of n])

lemma str_nat_digits: "c \<in> set (str_nat n) \<Longrightarrow> \<exists>d<10. c = digit_char d"
proof (induction n rule: str_nat.induct)
  case (1 n)
  show ?case
  proof (cases "n < 10")
    case True
    with "1.prems" have "c = digit_char n" by (rule str_nat_small_mem [rotated])
    with True show ?thesis by (intro exI [of _ n]) simp
  next
    case False
    with "1.prems" have "c = digit_char (n mod 10) \<or> c \<in> set (str_nat (n div 10))"
      by (rule str_nat_large_mem [rotated])
    then show ?thesis
    proof
      assume "c = digit_char (n mod 10)"
      then show ?thesis by (intro exI [of _ "n mod 10"]) simp
    next
      assume "c \<in> set (str_nat (n div 10))"
      then show ?thesis using "1.IH" [OF False] by simp
    qed
  qed
qed

lemma str_nat_chars:
  assumes "c \<in> set (str_nat n)"
  shows "c \<noteq> CHR ''_'' \<and> c \<noteq> CHR ''-''"
proof -
  from str_nat_digits [OF assms] obtain d where d: "d < 10" "c = digit_char d" by auto
  from digit_char_plain [OF d(1)] d(2) show ?thesis by simp
qed

lemma str_nat_inj: "str_nat n = str_nat m \<Longrightarrow> n = m"
proof (induction n arbitrary: m rule: str_nat.induct)
  case (1 n)
  show ?case
  proof (cases "n < 10")
    case True
    note n = this
    show ?thesis
    proof (cases "m < 10")
      case True
      with n "1.prems" have "digit_char n = digit_char m"
        by (simp add: str_nat.simps [of n] str_nat.simps [of m])
      with n True show ?thesis by (rule digit_char_inj)
    next
      case False
      with n "1.prems" have "[digit_char n] = str_nat (m div 10) @ [digit_char (m mod 10)]"
        by (simp add: str_nat.simps [of n] str_nat.simps [of m])
      then have "str_nat (m div 10) = []" by simp
      then show ?thesis using str_nat_not_Nil by simp
    qed
  next
    case False
    note n = this
    show ?thesis
    proof (cases "m < 10")
      case True
      with n "1.prems" have "str_nat (n div 10) @ [digit_char (n mod 10)] = [digit_char m]"
        by (simp add: str_nat.simps [of n] str_nat.simps [of m])
      then have "str_nat (n div 10) = []" by simp
      then show ?thesis using str_nat_not_Nil by simp
    next
      case False
      with n "1.prems" have "str_nat (n div 10) @ [digit_char (n mod 10)] = str_nat (m div 10) @ [digit_char (m mod 10)]"
        by (simp add: str_nat.simps [of n] str_nat.simps [of m])
      then have a: "str_nat (n div 10) = str_nat (m div 10)"
        and b: "digit_char (n mod 10) = digit_char (m mod 10)" by simp_all
      from "1.IH" [OF n a] have "n div 10 = m div 10" .
      moreover have "n mod 10 = m mod 10"
        by (rule digit_char_inj [OF _ _ b]) simp_all
      ultimately show ?thesis by (metis div_mult_mod_eq)
    qed
  qed
qed

lemma str_nat_hd: "hd (str_nat n) \<noteq> CHR ''-''"
  using str_nat_chars [of "hd (str_nat n)" n] str_nat_not_Nil [of n] by simp

lemma decimal_chars: "CHR ''_'' \<notin> set (decimal i)"
  using str_nat_chars by (auto simp: decimal_def)

lemma decimal_inj: "decimal i = decimal j \<Longrightarrow> i = j"
proof -
  assume eq: "decimal i = decimal j"
  have neg: "CHR ''-'' # str_nat a \<noteq> str_nat b" for a b
    using str_nat_hd [of b] by (metis list.sel(1))
  show ?thesis
  proof (cases "i < 0")
    case True
    note i = this
    show ?thesis
    proof (cases "j < 0")
      case True
      with i eq have "str_nat (nat (- i)) = str_nat (nat (- j))" by (simp add: decimal_def)
      then have "nat (- i) = nat (- j)" by (rule str_nat_inj)
      with i True show ?thesis by simp
    next
      case False
      with i eq show ?thesis using neg by (simp add: decimal_def)
    qed
  next
    case False
    note i = this
    show ?thesis
    proof (cases "j < 0")
      case True
      with i eq show ?thesis using neg [of "nat (- j)" "nat i"] by (simp add: decimal_def)
    next
      case False
      with i eq have "str_nat (nat i) = str_nat (nat j)" by (simp add: decimal_def)
      then have "nat i = nat j" by (rule str_nat_inj)
      with i False show ?thesis by simp
    qed
  qed
qed

lemma sep_split_unique:
  assumes "c \<notin> set s1" "c \<notin> set s2" "d1 @ c # s1 = d2 @ c # s2"
  shows "d1 = d2 \<and> s1 = s2"
  using assms
proof (induction d1 arbitrary: d2)
  case Nil
  then show ?case by (cases d2) auto
next
  case (Cons a d1)
  then show ?case by (cases d2) auto
qed

lemma key_text_inj:
  "key_text e1 = key_text e2 \<longleftrightarrow>
     day (time_slot e1) = day (time_slot e2) \<and> start_time (time_slot e1) = start_time (time_slot e2)"
proof
  assume eq: "key_text e1 = key_text e2"
  then have "day (time_slot e1) @ CHR ''_'' # decimal (start_time (time_slot e1))
           = day (time_slot e2) @ CHR ''_'' # decimal (start_time (time_slot e2))"
    by (simp add: key_text_def)
  from sep_split_unique [OF decimal_chars decimal_chars this]
  show "day (time_slot e1) = day (time_slot e2) \<and> start_time (time_slot e1) = start_time (time_slot e2)"
    using decimal_inj by auto
next
  assume "day (time_slot e1) = day (time_slot e2) \<and> start_time (time_slot e1) = start_time (time_slot e2)"
  then show "key_text e1 = key_text e2" by (simp add: key_text_def)
qed

section \<open>The limit on integer digits\<close>

lemma str_nat_length_small: "n < 10 \<Longrightarrow> length (str_nat n) = 1"
  by (subst str_nat.simps) simp

lemma str_nat_length_large:
  "\<not> n < 10 \<Longrightarrow> length (str_nat n) = Suc (length (str_nat (n div 10)))"
  by (subst str_nat.simps) simp

lemma str_nat_length_le: "length (str_nat n) \<le> Suc k \<longleftrightarrow> n < 10 ^ Suc k"
proof (induction n arbitrary: k rule: str_nat.induct)
  case (1 n)
  show ?case
  proof (cases "n < 10")
    case True
    have "(10::nat) ^ 1 \<le> 10 ^ Suc k" by (rule power_increasing) simp_all
    then have "(10::nat) \<le> 10 ^ Suc k" by (simp only: power_one_right)
    with True have "n < 10 ^ Suc k" by (rule less_le_trans)
    with True show ?thesis by (simp only: str_nat_length_small) simp
  next
    case False
    note large = this
    show ?thesis
    proof (cases k)
      case 0
      with large show ?thesis by (simp add: str_nat_length_large str_nat_not_Nil)
    next
      case (Suc j)
      have "length (str_nat n) \<le> Suc k \<longleftrightarrow> length (str_nat (n div 10)) \<le> Suc j"
        by (simp add: str_nat_length_large [OF large] Suc)
      also have "\<dots> \<longleftrightarrow> n div 10 < 10 ^ Suc j" by (rule "1.IH" [OF large])
      also have "\<dots> \<longleftrightarrow> n < 10 ^ Suc j * 10"
        by (rule div_less_iff_less_mult) simp
      finally show ?thesis by (simp add: Suc mult.commute)
    qed
  qed
qed

lemma int_max_str_digits_Suc: "\<exists>k. int_max_str_digits = Suc k"
  by (simp add: int_max_str_digits_def)

lemma start_within_limit_iff:
  "start_within_limit e \<longleftrightarrow> \<bar>start_time (time_slot e)\<bar> < 10 ^ int_max_str_digits"
proof -
  obtain k where k: "int_max_str_digits = Suc k" using int_max_str_digits_Suc by auto
  have "start_within_limit e \<longleftrightarrow> nat \<bar>start_time (time_slot e)\<bar> < 10 ^ Suc k"
    by (simp only: start_within_limit_def k str_nat_length_le)
  also have "\<dots> \<longleftrightarrow> \<bar>start_time (time_slot e)\<bar> < int (10 ^ Suc k)"
    by (simp only: nat_less_iff abs_ge_zero)
  also have "int (10 ^ Suc k) = 10 ^ Suc k" by (simp only: of_nat_power of_nat_numeral)
  finally show ?thesis by (simp only: k)
qed

lemma small_start_within_limit:
  assumes "\<bar>start_time (time_slot e)\<bar> < 10000"
  shows "\<bar>start_time (time_slot e)\<bar> < 10 ^ int_max_str_digits"
proof -
  have "4 \<le> int_max_str_digits" by (simp add: int_max_str_digits_def)
  then have "(10::int) ^ 4 \<le> 10 ^ int_max_str_digits" by (rule power_increasing) simp
  moreover have "(10::int) ^ 4 = 10000" by simp
  ultimately show ?thesis using assms by linarith
qed


lemma within_limit_all:
  "list_all start_within_limit es \<longleftrightarrow>
     (\<forall>e\<in>set es. \<bar>start_time (time_slot e)\<bar> < 10 ^ int_max_str_digits)"
  by (simp add: list_all_iff start_within_limit_iff)

lemma huge_start_beyond: "\<not> start_within_limit huge_start_entry"
  by (simp add: start_within_limit_iff huge_start_entry_def)

section \<open>Conflicts and bookings\<close>

lemma teacher_key_eq_iff: "teacher_key a = teacher_key b \<longleftrightarrow> teacher_booking a = teacher_booking b"
  by (simp add: teacher_key_def teacher_booking_def key_text_inj)

lemma room_key_eq_iff: "room_key a = room_key b \<longleftrightarrow> room_booking a = room_booking b"
  by (simp add: room_key_def room_booking_def key_text_inj)

lemma distinct_map_cong_iff:
  assumes "\<And>a b. f a = f b \<longleftrightarrow> g a = g b"
  shows "distinct (map f xs) \<longleftrightarrow> distinct (map g xs)"
proof -
  have "inj_on f (set xs) \<longleftrightarrow> inj_on g (set xs)"
    by (simp add: inj_on_def assms)
  then show ?thesis by (simp add: distinct_map)
qed

lemma conflict_msgs_empty_iff:
  "conflict_msgs es {} {} = [] \<longleftrightarrow>
     distinct (map teacher_booking es) \<and> distinct (map room_booking es)"
  using distinct_map_cong_iff [of teacher_key teacher_booking es, OF teacher_key_eq_iff]
        distinct_map_cong_iff [of room_key room_booking es, OF room_key_eq_iff]
  by (simp add: conflict_msgs_Nil_iff)









section \<open>Loading and generating\<close>

lemma load_mock_data_catalog [simp]: "mock_catalog (load_mock_data st)"
  by (simp add: mock_catalog_def load_mock_data_def)

lemma load_mock_data_flag [simp]: "prolog_available (load_mock_data st) = prolog_available st"
  by (simp add: load_mock_data_def)

lemma load_from_prolog_flag [simp]: "prolog_available (load_from_prolog kb st) = prolog_available st"
  by (simp add: load_from_prolog_def Let_def)

lemma init_flag:
  "prolog_available (TimetableScheduler_init p f kb) \<longleftrightarrow> p \<and> \<not> consult_raises kb"
  by (simp add: TimetableScheduler_init_def load_data_def Let_def)

lemma init_mock_catalog:
  "\<not> prolog_available (TimetableScheduler_init p f kb) \<Longrightarrow> mock_catalog (TimetableScheduler_init p f kb)"
  by (auto simp: TimetableScheduler_init_def load_data_def Let_def split: if_splits)

lemma mock_catalog_schedule_update [simp]:
  "mock_catalog (st\<lparr>schedule := s\<rparr>) = mock_catalog st"
  by (simp add: mock_catalog_def load_mock_data_def)

lemma generate_mock_schedule_catalog:
  "courses (snd (generate_mock_schedule st)) = courses st \<and>
   time_slots (snd (generate_mock_schedule st)) = time_slots st \<and>
   rooms (snd (generate_mock_schedule st)) = rooms st"
  by (simp add: generate_mock_schedule_def split: sum.splits)

lemma generate_prolog_schedule_catalog:
  "courses (snd (generate_prolog_schedule kb st)) = courses st \<and>
   time_slots (snd (generate_prolog_schedule kb st)) = time_slots st \<and>
   rooms (snd (generate_prolog_schedule kb st)) = rooms st"
  by (simp add: generate_prolog_schedule_def Let_def)

lemma load_time_slots_duration:
  assumes "\<And>sid s. d sid = Some s \<Longrightarrow> TimeSlot.duration s = (end_time s - start_time s) div 100"
    and "load_time_slots sols d sid = Some s"
  shows "TimeSlot.duration s = (end_time s - start_time s) div 100"
  using assms
proof (induction sols arbitrary: d)
  case Nil
  then show ?case by simp
next
  case (Cons sol sols)
  obtain slot_id dy start endt where sol: "sol = (slot_id, dy, start, endt)"
    by (cases sol) auto
  show ?case
  proof (rule Cons.IH)
    show "load_time_slots sols (d(slot_id \<mapsto> \<lparr>TimeSlot.id = slot_id, day = dy, start_time = start,
            end_time = endt, duration = (endt - start) div 100\<rparr>)) sid = Some s"
      using Cons.prems(2) by (simp add: sol)
  next
    fix sid' s'
    assume "(d(slot_id \<mapsto> \<lparr>TimeSlot.id = slot_id, day = dy, start_time = start,
            end_time = endt, duration = (endt - start) div 100\<rparr>)) sid' = Some s'"
    then show "TimeSlot.duration s' = (end_time s' - start_time s') div 100"
      using Cons.prems(1) by (auto split: if_splits)
  qed
qed

lemma mock_time_slots_duration:
  "time_slots (load_mock_data st) sid = Some s \<Longrightarrow>
     TimeSlot.duration s = (end_time s - start_time s) div 100"
  by (auto simp: load_mock_data_def split: if_splits)

lemma load_from_prolog_time_slots:
  "time_slots (load_from_prolog kb st) = time_slots (load_mock_data st)
   \<or> time_slots (load_from_prolog kb st) = load_time_slots (solutions (get_time_details kb)) (time_slots st)"
  by (simp add: load_from_prolog_def Let_def load_mock_data_def)

lemma generate_mock_schedule_mock:
  assumes "mock_catalog st"
  shows "generate_mock_schedule st = (Inr True, st\<lparr>schedule :=
    [\<lparr>course = \<lparr>Course.id = ''cs101'', name = ''Computer Science 101'',
         teacher_id = ''t001'', teacher_name = ''Dr. Smith'', duration = 2,
         room_type = ''computer_lab''\<rparr>,
       time_slot = \<lparr>TimeSlot.id = ''slot3'', day = ''monday'', start_time = 1000,
         end_time = 1200, duration = 2\<rparr>,
       room = \<lparr>Room.id = ''r001'', room_type = ''computer_lab'', capacity = 30\<rparr>\<rparr>,
     \<lparr>course = \<lparr>Course.id = ''math101'', name = ''Calculus I'',
         teacher_id = ''t003'', teacher_name = ''Dr. Brown'', duration = 1,
         room_type = ''classroom''\<rparr>,
       time_slot = \<lparr>TimeSlot.id = ''slot1'', day = ''monday'', start_time = 800,
         end_time = 900, duration = 1\<rparr>,
       room = \<lparr>Room.id = ''r002'', room_type = ''classroom'', capacity = 40\<rparr>\<rparr>,
     \<lparr>course = \<lparr>Course.id = ''phy101'', name = ''Physics I'',
         teacher_id = ''t005'', teacher_name = ''Dr. Wilson'', duration = 2,
         room_type = ''physics_lab''\<rparr>,
       time_slot = \<lparr>TimeSlot.id = ''slot5'', day = ''tuesday'', start_time = 1000,
         end_time = 1200, duration = 2\<rparr>,
       room = \<lparr>Room.id = ''r003'', room_type = ''physics_lab'', capacity = 20\<rparr>\<rparr>]\<rparr>)"
proof -
  from assms have c: "courses st = courses (load_mock_data st)"
    and t: "time_slots st = time_slots (load_mock_data st)"
    and r: "rooms st = rooms (load_mock_data st)"
    by (simp_all add: mock_catalog_def)
  show ?thesis
    unfolding generate_mock_schedule_def lookup_entry_def getitem_def c t r
    by (simp add: load_mock_data_def)
qed

text \<open>The definitions unfolded to run the program on a concrete input.\<close>

lemmas eval_defs =
  TimetableScheduler_init_def load_data_def load_from_prolog_def load_mock_data_def
  generate_schedule_def generate_mock_schedule_def generate_prolog_schedule_def
  lookup_entry_def getitem_def setdefault_def check_conflicts_def check_entry_def
  seen_or_add_def slot_key_def str_int_def decimal_def int_max_str_digits_def
  str_nat.simps digit_char_def teacher_msg_def room_msg_def Let_def

section \<open>Properties of \<open>check_conflicts\<close>\<close>

text \<open>
  Claim C4, as the code has it. For every scheduler state whose schedule (empty,
  produced by \<open>generate_schedule\<close> or built by hand) holds only start times of at most
  4300 decimal digits, \<open>check_conflicts\<close> raises no exception: it returns a list of
  conflict descriptions. The dictionary reads \<open>teacher_slots[teacher]\<close> and
  \<open>room_slots[room]\<close> never raise, since each follows the \<open>setdefault\<close> that stores the
  key.
\<close>

theorem check_conflicts_returns_list:
  assumes "\<forall>e\<in>set (schedule st). \<bar>start_time (time_slot e)\<bar> < 10 ^ int_max_str_digits"
  shows "\<exists>cs. fst (check_conflicts st) = Inr cs"
proof -
  from assms have "list_all start_within_limit (schedule st)"
    by (simp only: within_limit_all)
  then show ?thesis by (simp add: check_conflicts_eq)
qed

theorem check_conflicts_returns_list_witness:
  "(\<exists>cs. fst (check_conflicts
      ((TimetableScheduler_init False ''timetable_scheduler.pl'' no_prolog)
         \<lparr>schedule := [mismatched_entry]\<rparr>)) = Inr cs)
   \<and> (\<exists>cs. fst (check_conflicts
      ((TimetableScheduler_init False ''timetable_scheduler.pl'' no_prolog)
         \<lparr>schedule := []\<rparr>)) = Inr cs)"
proof -
  let ?st = "TimetableScheduler_init False ''timetable_scheduler.pl'' no_prolog"
  have "\<bar>start_time (time_slot mismatched_entry)\<bar> < 10 ^ int_max_str_digits"
    by (rule small_start_within_limit) (simp add: mismatched_entry_def)
  then have a: "\<forall>e\<in>set (schedule (?st\<lparr>schedule := [mismatched_entry]\<rparr>)).
      \<bar>start_time (time_slot e)\<bar> < 10 ^ int_max_str_digits"
    by simp
  have b: "\<forall>e\<in>set (schedule (?st\<lparr>schedule := []\<rparr>)).
      \<bar>start_time (time_slot e)\<bar> < 10 ^ int_max_str_digits"
    by simp
  from check_conflicts_returns_list [OF a] check_conflicts_returns_list [OF b]
  show ?thesis by (rule conjI)
qed

text \<open>
  Claim C4 as stated fails: on a schedule with one entry whose start time has 4301
  digits, building the slot key raises \<open>ValueError\<close> and no list is returned.
\<close>

theorem check_conflicts_raises_counterexample:
  "fst (check_conflicts
     ((TimetableScheduler_init False ''timetable_scheduler.pl'' no_prolog)
        \<lparr>schedule := [huge_start_entry]\<rparr>)) = Inl ValueError"
  by (simp add: check_conflicts_eq huge_start_beyond)

text \<open>
  Claim C5. \<open>check_conflicts\<close> leaves the scheduler (schedule and catalog) as it found
  it, and a second call on the unmodified scheduler returns the same list as the first.
\<close>

theorem check_conflicts_idempotent:
  "snd (check_conflicts st) = st
   \<and> check_conflicts (snd (check_conflicts st)) = check_conflicts st"
  by (simp add: check_conflicts_eq)

text \<open>
  Claim C9, as the code has it. \<open>check_conflicts\<close> returns the empty list exactly when
  every start time has at most 4300 decimal digits, the (teacher name, day, start time)
  triples of the entries are pairwise distinct and the (room id, day, start time)
  triples are pairwise distinct. Only day and start time are compared: two entries
  whose start times differ (each of at most 4300 digits) give the empty list when they
  are the whole schedule, whatever their end times, slot ids, teachers and rooms.
\<close>

theorem check_conflicts_empty_iff:
  "(fst (check_conflicts st) = Inr [] \<longleftrightarrow>
      (\<forall>e\<in>set (schedule st). \<bar>start_time (time_slot e)\<bar> < 10 ^ int_max_str_digits) \<and>
      distinct (map teacher_booking (schedule st)) \<and>
      distinct (map room_booking (schedule st)))
   \<and> (\<bar>start_time (time_slot e1)\<bar> < 10 ^ int_max_str_digits \<longrightarrow>
      \<bar>start_time (time_slot e2)\<bar> < 10 ^ int_max_str_digits \<longrightarrow>
      start_time (time_slot e1) \<noteq> start_time (time_slot e2) \<longrightarrow>
        fst (check_conflicts (st\<lparr>schedule := [e1, e2]\<rparr>)) = Inr [])"
proof -
  have 1: "fst (check_conflicts st) = Inr [] \<longleftrightarrow>
      (\<forall>e\<in>set (schedule st). \<bar>start_time (time_slot e)\<bar> < 10 ^ int_max_str_digits) \<and>
      distinct (map teacher_booking (schedule st)) \<and>
      distinct (map room_booking (schedule st))"
  proof (cases "list_all start_within_limit (schedule st)")
    case True
    then have "fst (check_conflicts st) = Inr (conflict_msgs (schedule st) {} {})"
      by (simp add: check_conflicts_eq)
    with True show ?thesis
      by (simp only: within_limit_all [symmetric] conflict_msgs_empty_iff sum.inject
            simp_thms)
  next
    case False
    then have "fst (check_conflicts st) = Inl ValueError"
      by (simp add: check_conflicts_eq)
    with False show ?thesis
      by (simp only: within_limit_all [symmetric] simp_thms sum.distinct)
  qed
  have 2: "fst (check_conflicts (st\<lparr>schedule := [e1, e2]\<rparr>)) = Inr []"
    if a: "\<bar>start_time (time_slot e1)\<bar> < 10 ^ int_max_str_digits"
    and b: "\<bar>start_time (time_slot e2)\<bar> < 10 ^ int_max_str_digits"
    and c: "start_time (time_slot e1) \<noteq> start_time (time_slot e2)"
  proof -
    from a b have "list_all start_within_limit [e1, e2]"
      by (simp add: start_within_limit_iff)
    then have "fst (check_conflicts (st\<lparr>schedule := [e1, e2]\<rparr>)) =
        Inr (conflict_msgs [e1, e2] {} {})"
      by (simp add: check_conflicts_eq)
    moreover from c have "teacher_key e2 \<noteq> teacher_key e1" and "room_key e2 \<noteq> room_key e1"
      by (simp_all add: teacher_key_eq_iff room_key_eq_iff teacher_booking_def
            room_booking_def)
    ultimately show ?thesis by simp
  qed
  from 1 2 show ?thesis by (intro conjI impI)
qed

text \<open>Witness for C9: the same teacher in the same room on Monday, 8:00 to 10:00 and
  9:00 to 10:00. The two slots overlap in time, the start times differ, and no conflict
  is reported.\<close>

theorem check_conflicts_empty_iff_witness:
  "(800::int) \<noteq> 900 \<and>
   fst (check_conflicts
     \<lparr>prolog_file = ''timetable_scheduler.pl'', prolog_available = False,
      courses = Map.empty, time_slots = Map.empty, rooms = Map.empty,
      schedule =
        [\<lparr>course = \<lparr>Course.id = ''cs101'', name = ''Computer Science 101'',
             teacher_id = ''t001'', teacher_name = ''Dr. Smith'', duration = 2,
             room_type = ''computer_lab''\<rparr>,
           time_slot = \<lparr>TimeSlot.id = ''a'', day = ''monday'', start_time = 800,
             end_time = 1000, duration = 2\<rparr>,
           room = \<lparr>Room.id = ''r001'', room_type = ''computer_lab'', capacity = 30\<rparr>\<rparr>,
         \<lparr>course = \<lparr>Course.id = ''cs102'', name = ''Data Structures'',
             teacher_id = ''t001'', teacher_name = ''Dr. Smith'', duration = 1,
             room_type = ''computer_lab''\<rparr>,
           time_slot = \<lparr>TimeSlot.id = ''b'', day = ''monday'', start_time = 900,
             end_time = 1000, duration = 1\<rparr>,
           room = \<lparr>Room.id = ''r001'', room_type = ''computer_lab'', capacity = 30\<rparr>\<rparr>]\<rparr>)
   = Inr []"
proof -
  let ?st = "\<lparr>prolog_file = ''timetable_scheduler.pl'', prolog_available = False,
          courses = Map.empty, time_slots = Map.empty, rooms = Map.empty, schedule = []\<rparr>"
  let ?e1 = "\<lparr>course = \<lparr>Course.id = ''cs101'', name = ''Computer Science 101'',
             teacher_id = ''t001'', teacher_name = ''Dr. Smith'', duration = 2,
             room_type = ''computer_lab''\<rparr>,
           time_slot = \<lparr>TimeSlot.id = ''a'', day = ''monday'', start_time = 800,
             end_time = 1000, duration = 2\<rparr>,
           room = \<lparr>Room.id = ''r001'', room_type = ''computer_lab'', capacity = 30\<rparr>\<rparr>"
  let ?e2 = "\<lparr>course = \<lparr>Course.id = ''cs102'', name = ''Data Structures'',
             teacher_id = ''t001'', teacher_name = ''Dr. Smith'', duration = 1,
             room_type = ''computer_lab''\<rparr>,
           time_slot = \<lparr>TimeSlot.id = ''b'', day = ''monday'', start_time = 900,
             end_time = 1000, duration = 1\<rparr>,
           room = \<lparr>Room.id = ''r001'', room_type = ''computer_lab'', capacity = 30\<rparr>\<rparr>"
  have a: "\<bar>start_time (time_slot ?e1)\<bar> < 10 ^ int_max_str_digits"
    by (rule small_start_within_limit) simp
  have b: "\<bar>start_time (time_slot ?e2)\<bar> < 10 ^ int_max_str_digits"
    by (rule small_start_within_limit) simp
  have c: "start_time (time_slot ?e1) \<noteq> start_time (time_slot ?e2)" by simp
  from check_conflicts_empty_iff [of ?st ?e1 ?e2]
  have "\<bar>start_time (time_slot ?e1)\<bar> < 10 ^ int_max_str_digits \<longrightarrow>
      \<bar>start_time (time_slot ?e2)\<bar> < 10 ^ int_max_str_digits \<longrightarrow>
      start_time (time_slot ?e1) \<noteq> start_time (time_slot ?e2) \<longrightarrow>
        fst (check_conflicts (?st\<lparr>schedule := [?e1, ?e2]\<rparr>)) = Inr []"
    by (rule conjunct2)
  from this [rule_format, OF a b c] show ?thesis by simp
qed

text \<open>
  Claim C9 as stated fails: a schedule of one entry has pairwise distinct triples, yet
  with a start time of 4301 digits the call raises \<open>ValueError\<close> instead of returning the
  empty list.
\<close>

theorem check_conflicts_empty_iff_counterexample:
  "distinct (map teacher_booking [huge_start_entry])
   \<and> distinct (map room_booking [huge_start_entry])
   \<and> fst (check_conflicts
       ((TimetableScheduler_init False ''timetable_scheduler.pl'' no_prolog)
          \<lparr>schedule := [huge_start_entry]\<rparr>)) \<noteq> Inr []"
  by (simp add: check_conflicts_eq huge_start_beyond)




section \<open>Properties of loading and of \<open>generate_schedule\<close>\<close>

text \<open>
  Claim C8. Neither \<open>generate_schedule\<close> (in either mode, whatever the knowledge base
  answers, also when it raises) nor \<open>check_conflicts\<close> changes the three catalog
  dictionaries: \<open>courses\<close>, \<open>time_slots\<close> and \<open>rooms\<close> are the same maps, with the same
  records, after the call as before.
\<close>

theorem catalog_unchanged:
  "courses (snd (generate_schedule kb st)) = courses st \<and>
   time_slots (snd (generate_schedule kb st)) = time_slots st \<and>
   rooms (snd (generate_schedule kb st)) = rooms st \<and>
   courses (snd (check_conflicts st)) = courses st \<and>
   time_slots (snd (check_conflicts st)) = time_slots st \<and>
   rooms (snd (check_conflicts st)) = rooms st"
  by (simp add: generate_schedule_def generate_mock_schedule_catalog
        generate_prolog_schedule_catalog check_conflicts_eq)

text \<open>
  Claim C7. Every time slot in the catalog of a freshly constructed scheduler, loaded
  from the knowledge base or taken from the mock data, has
  \<open>duration = (end_time - start_time) // 100\<close>.
\<close>

theorem time_slot_duration:
  "time_slots (TimetableScheduler_init p f kb) sid = Some s \<Longrightarrow>
     TimeSlot.duration s = (end_time s - start_time s) div 100"
proof -
  let ?st0 = "\<lparr>prolog_file = f, prolog_available = False, courses = Map.empty,
                time_slots = Map.empty, rooms = Map.empty, schedule = []\<rparr>"
  assume a: "time_slots (TimetableScheduler_init p f kb) sid = Some s"
  have "time_slots (TimetableScheduler_init p f kb) = time_slots (load_mock_data ?st0)
      \<or> time_slots (TimetableScheduler_init p f kb) = load_time_slots (solutions (get_time_details kb)) Map.empty"
    using load_from_prolog_time_slots [of kb "?st0\<lparr>prolog_available := True\<rparr>"]
    by (auto simp: TimetableScheduler_init_def load_data_def Let_def load_mock_data_def)
  then show ?thesis
  proof
    assume "time_slots (TimetableScheduler_init p f kb) = time_slots (load_mock_data ?st0)"
    with a show ?thesis using mock_time_slots_duration by simp
  next
    assume "time_slots (TimetableScheduler_init p f kb) = load_time_slots (solutions (get_time_details kb)) Map.empty"
    with a have "load_time_slots (solutions (get_time_details kb)) Map.empty sid = Some s" by simp
    then show ?thesis by (rule load_time_slots_duration [rotated]) simp
  qed
qed

theorem time_slot_duration_witness:
  "time_slots (TimetableScheduler_init True ''timetable_scheduler.pl'' oversize_kb) ''slot2'' =
     Some \<lparr>TimeSlot.id = ''slot2'', day = ''monday'', start_time = 900, end_time = 1100,
           duration = 2\<rparr>
   \<and> TimeSlot.duration \<lparr>TimeSlot.id = ''slot2'', day = ''monday'', start_time = 900,
        end_time = 1100, duration = 2\<rparr> = (1100 - 900) div 100"
proof -
  have a: "time_slots (TimetableScheduler_init True ''timetable_scheduler.pl'' oversize_kb) ''slot2'' =
     Some \<lparr>TimeSlot.id = ''slot2'', day = ''monday'', start_time = 900, end_time = 1100,
           duration = 2\<rparr>"
    by (simp add: eval_defs oversize_kb_def)
  from time_slot_duration [OF a] a show ?thesis by simp
qed

text \<open>
  Claim C10. In mock mode (\<open>prolog_available\<close> is false and the catalog is the mock
  catalog, as after construction without Prolog), every call of \<open>generate_schedule\<close>
  returns true and sets the schedule to the same three entries: cs101 in slot3 and r001,
  math101 in slot1 and r002, phy101 in slot5 and r003. A second call gives the same
  result and the same scheduler as the first.
\<close>

theorem generate_mock_schedule_deterministic:
  assumes "\<not> prolog_available st" and "mock_catalog st"
  shows "fst (generate_schedule kb st) = Inr True
    \<and> map entry_ids (schedule (snd (generate_schedule kb st))) =
        [(''cs101'', ''slot3'', ''r001''), (''math101'', ''slot1'', ''r002''),
         (''phy101'', ''slot5'', ''r003'')]
    \<and> generate_schedule kb' (snd (generate_schedule kb st)) = generate_schedule kb st"
proof -
  have g: "generate_schedule kb st = generate_mock_schedule st" for kb
    using assms(1) by (simp add: generate_schedule_def)
  note m = generate_mock_schedule_mock [OF assms(2)]
  have 1: "fst (generate_schedule kb st) = Inr True" by (simp add: g m)
  have 2: "map entry_ids (schedule (snd (generate_schedule kb st))) =
        [(''cs101'', ''slot3'', ''r001''), (''math101'', ''slot1'', ''r002''),
         (''phy101'', ''slot5'', ''r003'')]"
    by (simp add: g m entry_ids_def)
  have "\<not> prolog_available (snd (generate_mock_schedule st))"
    using assms(1) by (simp add: m)
  moreover have "mock_catalog (snd (generate_mock_schedule st))"
    using assms(2) by (simp add: m)
  ultimately have 3: "generate_schedule kb' (snd (generate_schedule kb st)) = generate_schedule kb st"
    using generate_mock_schedule_mock [of "snd (generate_mock_schedule st)"]
    by (simp add: g generate_schedule_def m)
  from 1 2 3 show ?thesis by simp
qed

theorem generate_mock_schedule_deterministic_witness:
  "\<not> prolog_available (TimetableScheduler_init False ''timetable_scheduler.pl'' no_prolog)
   \<and> mock_catalog (TimetableScheduler_init False ''timetable_scheduler.pl'' no_prolog)
   \<and> fst (generate_schedule no_prolog
         (TimetableScheduler_init False ''timetable_scheduler.pl'' no_prolog)) = Inr True
   \<and> map entry_ids (schedule (snd (generate_schedule no_prolog
         (TimetableScheduler_init False ''timetable_scheduler.pl'' no_prolog)))) =
        [(''cs101'', ''slot3'', ''r001''), (''math101'', ''slot1'', ''r002''),
         (''phy101'', ''slot5'', ''r003'')]
   \<and> generate_schedule no_prolog (snd (generate_schedule no_prolog
         (TimetableScheduler_init False ''timetable_scheduler.pl'' no_prolog))) =
       generate_schedule no_prolog
         (TimetableScheduler_init False ''timetable_scheduler.pl'' no_prolog)"
proof -
  have a: "\<not> prolog_available (TimetableScheduler_init False ''timetable_scheduler.pl'' no_prolog)"
    by (simp add: TimetableScheduler_init_def load_data_def load_mock_data_def)
  have b: "mock_catalog (TimetableScheduler_init False ''timetable_scheduler.pl'' no_prolog)"
    by (simp add: TimetableScheduler_init_def load_data_def mock_catalog_def load_mock_data_def)
  from a b generate_mock_schedule_deterministic [OF a b, of no_prolog no_prolog] show ?thesis by simp
qed




text \<open>
  Claim C1, as the code has it. In mock mode \<open>generate_schedule\<close> succeeds with a
  schedule of three entries; a course of the catalog appears in it exactly once when it
  is cs101, math101 or phy101, and not at all otherwise.
\<close>

theorem generate_mock_schedule_courses:
  assumes "\<not> prolog_available st" and "mock_catalog st"
  shows "fst (generate_schedule kb st) = Inr True
    \<and> length (schedule (snd (generate_schedule kb st))) = 3
    \<and> (\<forall>cid c. courses (snd (generate_schedule kb st)) cid = Some c \<longrightarrow>
          count_course c (schedule (snd (generate_schedule kb st))) =
            (if cid \<in> {''cs101'', ''math101'', ''phy101''} then 1 else 0))"
proof -
  have g: "generate_schedule kb st = generate_mock_schedule st"
    using assms(1) by (simp add: generate_schedule_def)
  from assms(2) have c: "courses st = courses (load_mock_data st)"
    by (simp add: mock_catalog_def)
  show ?thesis
    unfolding g generate_mock_schedule_mock [OF assms(2)]
    by (auto simp: c load_mock_data_def count_course_def split: if_splits)
qed

theorem generate_mock_schedule_courses_witness:
  "\<not> prolog_available (TimetableScheduler_init False ''timetable_scheduler.pl'' no_prolog)
   \<and> mock_catalog (TimetableScheduler_init False ''timetable_scheduler.pl'' no_prolog)
   \<and> courses (snd (generate_schedule no_prolog
        (TimetableScheduler_init False ''timetable_scheduler.pl'' no_prolog))) ''math102'' =
       Some \<lparr>Course.id = ''math102'', name = ''Linear Algebra'',
            teacher_id = ''t004'', teacher_name = ''Prof. Davis'', duration = 2,
            room_type = ''classroom''\<rparr>
   \<and> fst (generate_schedule no_prolog
        (TimetableScheduler_init False ''timetable_scheduler.pl'' no_prolog)) = Inr True
   \<and> length (schedule (snd (generate_schedule no_prolog
        (TimetableScheduler_init False ''timetable_scheduler.pl'' no_prolog)))) = 3
   \<and> count_course \<lparr>Course.id = ''math102'', name = ''Linear Algebra'',
            teacher_id = ''t004'', teacher_name = ''Prof. Davis'', duration = 2,
            room_type = ''classroom''\<rparr>
        (schedule (snd (generate_schedule no_prolog
          (TimetableScheduler_init False ''timetable_scheduler.pl'' no_prolog)))) = 0"
proof -
  let ?st = "TimetableScheduler_init False ''timetable_scheduler.pl'' no_prolog"
  have a: "\<not> prolog_available ?st" by (simp add: init_flag)
  have b: "mock_catalog ?st" using a by (rule init_mock_catalog)
  have c: "courses (snd (generate_schedule no_prolog ?st)) ''math102'' =
       Some \<lparr>Course.id = ''math102'', name = ''Linear Algebra'',
            teacher_id = ''t004'', teacher_name = ''Prof. Davis'', duration = 2,
            room_type = ''classroom''\<rparr>"
    by (simp add: eval_defs no_prolog_def)
  note th = generate_mock_schedule_courses [OF a b, of no_prolog]
  from th have 1: "fst (generate_schedule no_prolog ?st) = Inr True" by (rule conjunct1)
  from th have 2: "length (schedule (snd (generate_schedule no_prolog ?st))) = 3"
    by (elim conjE)
  from th have "\<forall>cid c. courses (snd (generate_schedule no_prolog ?st)) cid = Some c \<longrightarrow>
          count_course c (schedule (snd (generate_schedule no_prolog ?st))) =
            (if cid \<in> {''cs101'', ''math101'', ''phy101''} then 1 else 0)"
    by (elim conjE)
  from this [rule_format, OF c]
  have 3: "count_course \<lparr>Course.id = ''math102'', name = ''Linear Algebra'',
            teacher_id = ''t004'', teacher_name = ''Prof. Davis'', duration = 2,
            room_type = ''classroom''\<rparr>
        (schedule (snd (generate_schedule no_prolog ?st))) = 0"
    by simp
  from a b c 1 2 3 show ?thesis by (intro conjI)
qed

text \<open>
  Claim C1 as stated fails: generation succeeds on the five-course mock catalog, the
  schedule has three entries, and cs102 is in none of them.
\<close>

theorem generate_schedule_incomplete_counterexample:
  "fst (generate_schedule no_prolog
          (TimetableScheduler_init False ''timetable_scheduler.pl'' no_prolog)) = Inr True
   \<and> courses (snd (generate_schedule no_prolog
          (TimetableScheduler_init False ''timetable_scheduler.pl'' no_prolog))) ''cs102'' =
       Some \<lparr>Course.id = ''cs102'', name = ''Data Structures'',
            teacher_id = ''t002'', teacher_name = ''Prof. Johnson'', duration = 2,
            room_type = ''computer_lab''\<rparr>
   \<and> count_course \<lparr>Course.id = ''cs102'', name = ''Data Structures'',
            teacher_id = ''t002'', teacher_name = ''Prof. Johnson'', duration = 2,
            room_type = ''computer_lab''\<rparr>
        (schedule (snd (generate_schedule no_prolog
          (TimetableScheduler_init False ''timetable_scheduler.pl'' no_prolog)))) = 0
   \<and> length (schedule (snd (generate_schedule no_prolog
          (TimetableScheduler_init False ''timetable_scheduler.pl'' no_prolog)))) = 3"
  by (simp add: eval_defs no_prolog_def count_course_def)

text \<open>
  Claim C6, as the code has it. There is no catalog check: in Prolog mode
  \<open>generate_schedule\<close> returns true exactly when none of the three queries raises and
  \<open>generate_optimal_timetable\<close> has a solution. The catalog, and so every duration in
  it, has no part in the outcome.
\<close>

theorem generate_schedule_ignores_durations:
  "prolog_available st \<Longrightarrow>
     fst (generate_schedule kb st) =
       Inr (\<not> raises (clear_schedule kb) \<and> \<not> raises (generate_optimal_timetable kb) \<and>
            solutions (generate_optimal_timetable kb) \<noteq> [] \<and> \<not> raises (get_schedule kb))"
  by (simp add: generate_schedule_def generate_prolog_schedule_def Let_def)

theorem generate_schedule_ignores_durations_witness:
  "prolog_available (TimetableScheduler_init True ''timetable_scheduler.pl'' oversize_kb)
   \<and> fst (generate_schedule oversize_kb
          (TimetableScheduler_init True ''timetable_scheduler.pl'' oversize_kb)) = Inr True"
proof -
  have a: "prolog_available (TimetableScheduler_init True ''timetable_scheduler.pl'' oversize_kb)"
    by (simp add: init_flag oversize_kb_def)
  from a generate_schedule_ignores_durations [OF a, of oversize_kb] show ?thesis by (simp add: oversize_kb_def)
qed

text \<open>
  Claim C6 as stated fails: with a three-hour course and slots of one and two hours the
  catalog is loaded without error and generation succeeds, placing the course in the
  two-hour slot.
\<close>

theorem oversize_course_generation_counterexample:
  "courses (TimetableScheduler_init True ''timetable_scheduler.pl'' oversize_kb) =
     [''long101'' \<mapsto> \<lparr>Course.id = ''long101'', name = ''Seminar'', teacher_id = [],
         teacher_name = ''Dr. Smith'', duration = 3, room_type = ''classroom''\<rparr>]
   \<and> time_slots (TimetableScheduler_init True ''timetable_scheduler.pl'' oversize_kb) =
     [''slot1'' \<mapsto> \<lparr>TimeSlot.id = ''slot1'', day = ''monday'', start_time = 800,
         end_time = 900, duration = 1\<rparr>,
      ''slot2'' \<mapsto> \<lparr>TimeSlot.id = ''slot2'', day = ''monday'', start_time = 900,
         end_time = 1100, duration = 2\<rparr>]
   \<and> fst (generate_schedule oversize_kb
          (TimetableScheduler_init True ''timetable_scheduler.pl'' oversize_kb)) = Inr True
   \<and> map entry_ids (schedule (snd (generate_schedule oversize_kb
          (TimetableScheduler_init True ''timetable_scheduler.pl'' oversize_kb)))) =
       [(''long101'', ''slot2'', ''r002'')]"
  by (simp add: eval_defs oversize_kb_def entry_ids_def)

end
